theory Spec2Isabelle
  imports Complex_Main "HOL-Library.Char_ord" "HOL-Library.List_Lexorder"
begin

section \<open>Data frames\<close>

text \<open>
  The dashboard (host.py) works on a pandas data frame that comes from \<open>pd.read_csv\<close> or
  from \<open>create_sample_data\<close>. Such a frame is a list of named columns, and every column
  has one dtype: \<open>int64\<close> (no missing value), \<open>float64\<close> (NaN is the missing value),
  \<open>bool\<close>, or \<open>object\<close> (strings, NaN for an empty field). An \<open>int64\<close> value is the
  integer that it holds, between \<open>-2^63\<close> and \<open>2^63 - 1\<close>, and a \<open>float64\<close> value is the
  real number that it stands for; the arithmetic on them is that of the machine, stated
  with the aggregation. The dtypes that a CSV file seldom gives (\<open>uint64\<close> for integers
  beyond \<open>int64\<close>) are outside the model.
\<close>

datatype column_data =
    IntCol "int list"
  | FloatCol "real option list"
  | BoolCol "bool list"
  | ObjCol "string option list"

type_synonym frame = "(string \<times> column_data) list"

datatype dtype = Int64 | Float64 | Bool | Object | Category

fun dtype_of :: "column_data \<Rightarrow> dtype" where
  "dtype_of (IntCol _) = Int64"
| "dtype_of (FloatCol _) = Float64"
| "dtype_of (BoolCol _) = Bool"
| "dtype_of (ObjCol _) = Object"

fun len :: "column_data \<Rightarrow> nat" where
  "len (IntCol xs) = length xs"
| "len (FloatCol xs) = length xs"
| "len (BoolCol xs) = length xs"
| "len (ObjCol xs) = length xs"

text \<open>\<open>len(df)\<close>: the number of rows.\<close>

fun nrows :: "frame \<Rightarrow> nat" where
  "nrows [] = 0"
| "nrows ((_, c) # _) = len c"

text \<open>
  What pandas guarantees of a frame: the columns have the same length, and the names are
  distinct (\<open>read_csv\<close> renames duplicates, the column multiselect returns each name once).
\<close>

definition wf_frame :: "frame \<Rightarrow> bool" where
  "wf_frame df \<longleftrightarrow> distinct (map fst df) \<and> list_all (\<lambda>(n, c). len c = nrows df) df"

section \<open>Column classification (host.py, lines 175-185)\<close>

text \<open>
  The two \<open>select_dtypes\<close> calls name the dtypes they include. No column of a loaded frame
  has the dtype \<open>category\<close>, so that entry of the second list selects nothing.
\<close>

definition select_dtypes :: "dtype list \<Rightarrow> frame \<Rightarrow> string list" where
  "select_dtypes include df = map fst (filter (\<lambda>(n, c). dtype_of c \<in> set include) df)"

definition numeric_cols :: "frame \<Rightarrow> string list" where
  "numeric_cols df = select_dtypes [Int64, Float64] df"

definition categorical_cols :: "frame \<Rightarrow> string list" where
  "categorical_cols df = select_dtypes [Object, Category] df"

text \<open>
  The loop over \<open>df.columns\<close> keeps a column when \<open>pd.to_datetime(df[col], errors='raise')\<close>
  returns, and skips it when the call raises. The parser belongs to pandas; it is the
  parameter \<open>to_datetime\<close>, true when the call returns.
\<close>

definition date_cols :: "(column_data \<Rightarrow> bool) \<Rightarrow> frame \<Rightarrow> string list" where
  "date_cols to_datetime df = map fst (filter (\<lambda>(n, c). to_datetime c) df)"

section \<open>Group-by and aggregation (host.py, lines 244-265)\<close>

datatype agg_type = Sum | Mean | Median | Count | Min | Max | Std

text \<open>
  The exceptions of the script. \<open>KeyError\<close>: a column name that the frame does not have;
  \<open>ValueError\<close>: \<open>groupby\<close> without keys, and \<open>reset_index(name='Hasil')\<close> when a grouping
  column is itself called Hasil; \<open>ReError\<close>: \<open>re.error\<close>, a search text that is not a regular
  expression; \<open>StreamlitError\<close>: \<open>st.columns(0)\<close>. \<open>NotOffered\<close> is no exception: it marks
  a selection that the widgets cannot deliver (the multiselect offers \<open>categorical_cols\<close>
  only, the selectbox \<open>numeric_cols\<close> only); what pandas does there is not modelled.
\<close>

datatype py_error = KeyError | ValueError | ReError | StreamlitError | NotOffered

text \<open>The rows of a list of columns; \<open>n\<close> is the number of rows.\<close>

fun rows_of :: "nat \<Rightarrow> 'a list list \<Rightarrow> 'a list list" where
  "rows_of n [] = replicate n []"
| "rows_of n (c # cs) = map2 (#) c (rows_of n cs)"

text \<open>
  \<open>df.groupby(cols)\<close> with the defaults \<open>sort=True\<close> and \<open>dropna=True\<close>: a row whose key
  has a missing component belongs to no group; the groups come in ascending order of
  their keys (strings by code point, tuples lexicographically); inside a group the rows
  keep their order.
\<close>

definition keyed :: "string option list list \<Rightarrow> 'v list \<Rightarrow> (string list \<times> 'v) list" where
  "keyed keycols vals =
     concat (map2 (\<lambda>k v. case those k of None \<Rightarrow> [] | Some ks \<Rightarrow> [(ks, v)])
                  (rows_of (length vals) keycols) vals)"

definition groupby :: "string option list list \<Rightarrow> 'v list \<Rightarrow> (string list \<times> 'v list) list" where
  "groupby keycols vals =
     (let kv = keyed keycols vals
      in map (\<lambda>k. (k, map snd (filter (\<lambda>p. fst p = k) kv))) (sort (remdups (map fst kv))))"

text \<open>
  A value of the result column: an \<open>int64\<close> number, a \<open>float64\<close> number (the real number
  that it stands for), or NaN.
\<close>

datatype number = NaN | I64 int | F64 real

definition present :: "'a option list \<Rightarrow> 'a list" where
  "present xs = concat (map (\<lambda>x. case x of None \<Rightarrow> [] | Some r \<Rightarrow> [r]) xs)"

text \<open>
  \<open>int64\<close> arithmetic wraps around: the sum of \<open>int64\<close> values is their exact sum brought
  back into the range from \<open>-2^63\<close> to \<open>2^63 - 1\<close>.
\<close>

definition wrap64 :: "int \<Rightarrow> int" where
  "wrap64 x = (x + 2 ^ 63) mod 2 ^ 64 - 2 ^ 63"

text \<open>
  The reducers of \<open>.agg(agg_type)\<close>; all of them skip NaN. The sum of an \<open>int64\<close> column
  is an \<open>int64\<close> and wraps; \<open>min\<close> and \<open>max\<close> select a value of the group. The reducers
  that compute in \<open>float64\<close> (\<open>sum\<close> of a \<open>float64\<close> column; \<open>mean\<close>, \<open>median\<close> and \<open>std\<close> of
  either dtype) round as pandas does: they are the parameter \<open>float_agg\<close>, which takes
  the values of the group and returns the \<open>float64\<close> result (\<open>None\<close> is NaN). The handler
  never passes \<open>count\<close> to \<open>.agg\<close>; the equations for it are those of pandas.
\<close>

type_synonym float_reducers = "agg_type \<Rightarrow> real option list \<Rightarrow> real option"

definition of_float :: "real option \<Rightarrow> number" where
  "of_float x = (case x of None \<Rightarrow> NaN | Some r \<Rightarrow> F64 r)"

fun agg_int :: "float_reducers \<Rightarrow> agg_type \<Rightarrow> int list \<Rightarrow> number" where
  "agg_int float_agg Sum xs = I64 (wrap64 (sum_list xs))"
| "agg_int float_agg Count xs = I64 (int (length xs))"
| "agg_int float_agg Min xs = (case xs of [] \<Rightarrow> NaN | v # vs \<Rightarrow> I64 (fold min vs v))"
| "agg_int float_agg Max xs = (case xs of [] \<Rightarrow> NaN | v # vs \<Rightarrow> I64 (fold max vs v))"
| "agg_int float_agg Mean xs = of_float (float_agg Mean (map (\<lambda>i. Some (real_of_int i)) xs))"
| "agg_int float_agg Median xs = of_float (float_agg Median (map (\<lambda>i. Some (real_of_int i)) xs))"
| "agg_int float_agg Std xs = of_float (float_agg Std (map (\<lambda>i. Some (real_of_int i)) xs))"

fun agg_float :: "float_reducers \<Rightarrow> agg_type \<Rightarrow> real option list \<Rightarrow> number" where
  "agg_float float_agg Sum xs = of_float (float_agg Sum xs)"
| "agg_float float_agg Count xs = I64 (int (length (present xs)))"
| "agg_float float_agg Min xs = (case present xs of [] \<Rightarrow> NaN | v # vs \<Rightarrow> F64 (fold min vs v))"
| "agg_float float_agg Max xs = (case present xs of [] \<Rightarrow> NaN | v # vs \<Rightarrow> F64 (fold max vs v))"
| "agg_float float_agg Mean xs = of_float (float_agg Mean xs)"
| "agg_float float_agg Median xs = of_float (float_agg Median xs)"
| "agg_float float_agg Std xs = of_float (float_agg Std xs)"

text \<open>
  The same reducers in exact arithmetic. They stand for \<open>float_agg\<close> in the examples
  whose numbers are small integers, where \<open>float64\<close> computes these very values.
\<close>

definition mean :: "real list \<Rightarrow> real" where
  "mean vs = sum_list vs / real (length vs)"

definition median :: "real list \<Rightarrow> real" where
  "median vs =
     (let s = sort vs; n = length s
      in if even n then (s ! (n div 2 - 1) + s ! (n div 2)) / 2 else s ! (n div 2))"

definition std :: "real list \<Rightarrow> real" where
  "std vs = sqrt (sum_list (map (\<lambda>x. (x - mean vs)\<^sup>2) vs) / real (length vs - 1))"

fun exact_agg :: float_reducers where
  "exact_agg Sum xs = Some (sum_list (present xs))"
| "exact_agg Mean xs = (if present xs = [] then None else Some (mean (present xs)))"
| "exact_agg Median xs = (if present xs = [] then None else Some (median (present xs)))"
| "exact_agg Count xs = Some (real (length (present xs)))"
| "exact_agg Min xs = (case present xs of [] \<Rightarrow> None | v # vs \<Rightarrow> Some (fold min vs v))"
| "exact_agg Max xs = (case present xs of [] \<Rightarrow> None | v # vs \<Rightarrow> Some (fold max vs v))"
| "exact_agg Std xs = (if length (present xs) \<le> 1 then None else Some (std (present xs)))"





text \<open>The result table: the grouping columns and the column Hasil.\<close>

record result_frame =
  header :: "string list"
  body :: "(string list \<times> number) list"

fun key_column :: "frame \<Rightarrow> string \<Rightarrow> py_error + string option list" where
  "key_column df c =
     (case map_of df c of
        None \<Rightarrow> Inl KeyError
      | Some (ObjCol xs) \<Rightarrow> Inr xs
      | Some _ \<Rightarrow> Inl NotOffered)"

fun key_columns :: "frame \<Rightarrow> string list \<Rightarrow> py_error + string option list list" where
  "key_columns df [] = Inr []"
| "key_columns df (c # cs) =
     (case key_column df c of
        Inl e \<Rightarrow> Inl e
      | Inr xs \<Rightarrow> (case key_columns df cs of Inl e \<Rightarrow> Inl e | Inr xss \<Rightarrow> Inr (xs # xss)))"

text \<open>
  The body of the \<open>try\<close> block. With \<open>count\<close> the result is
  \<open>df.groupby(group_by_cols).size().reset_index(name='Hasil')\<close>, which never reads the
  value column; otherwise it is \<open>df.groupby(group_by_cols)[value_col].agg(agg_type)\<close>, on
  the \<open>int64\<close> or \<open>float64\<close> values of the value column.
\<close>

definition aggregate ::
  "float_reducers \<Rightarrow> frame \<Rightarrow> string list \<Rightarrow> string \<Rightarrow> agg_type \<Rightarrow> py_error + result_frame" where
  "aggregate float_agg df group_by_cols value_col agg_type =
     (if group_by_cols = [] then Inl ValueError
      else case key_columns df group_by_cols of
        Inl e \<Rightarrow> Inl e
      | Inr keycols \<Rightarrow>
          if agg_type = Count then
            (if ''Hasil'' \<in> set group_by_cols then Inl ValueError
             else Inr \<lparr>header = group_by_cols @ [''Hasil''],
                       body = map (\<lambda>(k, g). (k, I64 (int (length g))))
                                  (groupby keycols (replicate (nrows df) ()))\<rparr>)
          else
            (case map_of df value_col of
               None \<Rightarrow> Inl KeyError
             | Some (IntCol vals) \<Rightarrow>
                 Inr \<lparr>header = group_by_cols @ [''Hasil''],
                       body = map (\<lambda>(k, g). (k, agg_int float_agg agg_type g))
                                  (groupby keycols vals)\<rparr>
             | Some (FloatCol vals) \<Rightarrow>
                 Inr \<lparr>header = group_by_cols @ [''Hasil''],
                       body = map (\<lambda>(k, g). (k, agg_float float_agg agg_type g))
                                  (groupby keycols vals)\<rparr>
             | Some _ \<Rightarrow> Inl NotOffered))"

text \<open>
  The session state holds the last result and its configuration. The button handler
  computes only behind the gate \<open>if group_by_cols and value_col\<close> (\<open>value_col\<close> is \<open>None\<close>
  when the frame has no numeric column), and stores only after the computation returned.
\<close>

record config =
  cfg_group_by :: "string list"
  cfg_value_col :: string
  cfg_agg_type :: agg_type

record session_state =
  analysis_result :: "result_frame option"
  analysis_config :: "config option"

datatype notice = Success | Error py_error | Warning

definition on_click ::
  "float_reducers \<Rightarrow> frame \<Rightarrow> string list \<Rightarrow> string option \<Rightarrow> agg_type \<Rightarrow> session_state
     \<Rightarrow> session_state \<times> notice" where
  "on_click float_agg df group_by_cols value_col agg_type st =
     (case value_col of
        None \<Rightarrow> (st, Warning)
      | Some v \<Rightarrow>
          if group_by_cols \<noteq> [] \<and> v \<noteq> [] then
            (case aggregate float_agg df group_by_cols v agg_type of
               Inl e \<Rightarrow> (st, Error e)
             | Inr result_df \<Rightarrow>
                 (st\<lparr>analysis_result := Some result_df,
                     analysis_config := Some \<lparr>cfg_group_by = group_by_cols, cfg_value_col = v,
                                               cfg_agg_type = agg_type\<rparr>\<rparr>,
                  Success))
          else (st, Warning))"

text \<open>
  The column Hasil of a result: the numbers that its values stand for, their exact sum
  (NaN skipped, as \<open>sum\<close> does), and its \<open>int64\<close> values.
\<close>

definition denote :: "number \<Rightarrow> real option" where
  "denote x = (case x of NaN \<Rightarrow> None | I64 i \<Rightarrow> Some (real_of_int i) | F64 r \<Rightarrow> Some r)"

definition hasil :: "result_frame \<Rightarrow> real option list" where
  "hasil r = map (\<lambda>(k, x). denote x) (body r)"

definition hasil_total :: "result_frame \<Rightarrow> real" where
  "hasil_total r = sum_list (present (hasil r))"


text \<open>
  The values of a column in the rows whose grouping value is present, and the keys of a
  list in the order in which each first occurs.
\<close>

definition rows_with_key :: "string option list \<Rightarrow> 'v list \<Rightarrow> 'v list" where
  "rows_with_key ks vs = map snd (filter (\<lambda>p. fst p \<noteq> None) (zip ks vs))"

definition first_seen :: "'a list \<Rightarrow> 'a list" where
  "first_seen xs = rev (remdups (rev xs))"

section \<open>Rendering, filters and search (host.py, lines 276-309)\<close>

text \<open>
  What the model takes from Python as parameters: \<open>float_str\<close>, the text of a float
  (\<open>str\<close>); \<open>re_search\<close>, the regular expression engine for the patterns outside the
  fragment below: \<open>re_search pat s\<close> is \<open>None\<close> when \<open>re.compile(pat, re.IGNORECASE)\<close>
  raises, and otherwise tells whether the pattern is found in \<open>s\<close>; and the \<open>float64\<close>
  statistics of \<open>describe\<close>: \<open>float_reducer\<close> for mean, std, min and max, and
  \<open>float_quantile\<close> for the percentiles.
\<close>

record pylib =
  float_str :: "real \<Rightarrow> string"
  re_search :: "string \<Rightarrow> string \<Rightarrow> bool option"
  float_reducer :: float_reducers
  float_quantile :: "real \<Rightarrow> real option list \<Rightarrow> real option"

function str_nat :: "nat \<Rightarrow> string" where
  "str_nat n = (if n < 10 then [''0123456789'' ! n] else str_nat (n div 10) @ [''0123456789'' ! (n mod 10)])"
  by pat_completeness auto
termination
  by (relation "measure id") auto

definition str_int :: "int \<Rightarrow> string" where
  "str_int i = (if i < 0 then CHR ''-'' # str_nat (nat (- i)) else str_nat (nat i))"

text \<open>\<open>.astype(str)\<close> on a column: every value becomes its text, and NaN becomes the text nan.\<close>

fun astype_str :: "pylib \<Rightarrow> column_data \<Rightarrow> string list" where
  "astype_str lib (IntCol xs) = map str_int xs"
| "astype_str lib (FloatCol xs) = map (\<lambda>x. case x of None \<Rightarrow> ''nan'' | Some r \<Rightarrow> float_str lib r) xs"
| "astype_str lib (BoolCol xs) = map (\<lambda>b. if b then ''True'' else ''False'') xs"
| "astype_str lib (ObjCol xs) = map (\<lambda>x. case x of None \<Rightarrow> ''nan'' | Some s \<Rightarrow> s) xs"

text \<open>\<open>df[mask]\<close>: the rows at which the boolean mask is true, in their order.\<close>

definition pick :: "bool list \<Rightarrow> 'a list \<Rightarrow> 'a list" where
  "pick bmask xs = map snd (filter fst (zip bmask xs))"

fun pick_col :: "bool list \<Rightarrow> column_data \<Rightarrow> column_data" where
  "pick_col bmask (IntCol xs) = IntCol (pick bmask xs)"
| "pick_col bmask (FloatCol xs) = FloatCol (pick bmask xs)"
| "pick_col bmask (BoolCol xs) = BoolCol (pick bmask xs)"
| "pick_col bmask (ObjCol xs) = ObjCol (pick bmask xs)"

definition pick_rows :: "bool list \<Rightarrow> frame \<Rightarrow> frame" where
  "pick_rows bmask df = map (\<lambda>(n, c). (n, pick_col bmask c)) df"

text \<open>
  The filter dictionary has one entry for each of the first six categorical columns: the
  options ticked in its multiselect (\<open>picks\<close>). The loop over the entries keeps, for an
  entry that is not empty and does not hold Semua, the rows whose text is ticked.
\<close>

definition filters :: "(string \<Rightarrow> string list) \<Rightarrow> frame \<Rightarrow> (string \<times> string list) list" where
  "filters picks df = map (\<lambda>col. (col, picks col)) (take 6 (categorical_cols df))"

fun apply_filters :: "pylib \<Rightarrow> frame \<Rightarrow> (string \<times> string list) list \<Rightarrow> py_error + frame" where
  "apply_filters lib df_filtered [] = Inr df_filtered"
| "apply_filters lib df_filtered ((col, filter_val) # rest) =
     (if ''Semua'' \<notin> set filter_val \<and> filter_val \<noteq> [] then
        (case map_of df_filtered col of
           None \<Rightarrow> Inl KeyError
         | Some c \<Rightarrow>
             apply_filters lib
               (pick_rows (map (\<lambda>s. s \<in> set filter_val) (astype_str lib c)) df_filtered) rest)
      else apply_filters lib df_filtered rest)"

text \<open>
  \<open>x.str.contains(search, case=False, na=False)\<close> has the pandas default \<open>regex=True\<close>: the
  search text is compiled as a regular expression with \<open>re.IGNORECASE\<close>. The model
  evaluates the patterns written with ordinary characters and the dot, which matches
  every character but the line feed; it knows that a pattern of ordinary characters, dots
  and opening parentheses, with at least one parenthesis, does not compile (the
  parenthesis is never closed); every other pattern goes to \<open>re_search\<close>. Text is ASCII
  here: the letters that \<open>re.IGNORECASE\<close> identifies are A-Z with a-z.
\<close>

definition metachars :: "char list" where
  "metachars = ''.^$*+?{}[]|()'' @ [CHR 0x5C]"

definition ordinary :: "char \<Rightarrow> bool" where
  "ordinary c \<longleftrightarrow> c \<notin> set metachars"

definition lower :: "char \<Rightarrow> char" where
  "lower c =
     (case map_of (zip ''ABCDEFGHIJKLMNOPQRSTUVWXYZ'' ''abcdefghijklmnopqrstuvwxyz'') c of
        None \<Rightarrow> c
      | Some l \<Rightarrow> l)"

fun match_here :: "string \<Rightarrow> string \<Rightarrow> bool" where
  "match_here [] s = True"
| "match_here (p # ps) [] = False"
| "match_here (p # ps) (c # cs) =
     ((if p = CHR ''.'' then c \<noteq> CHR 0x0A else lower p = lower c) \<and> match_here ps cs)"

fun match_anywhere :: "string \<Rightarrow> string \<Rightarrow> bool" where
  "match_anywhere pat [] = match_here pat []"
| "match_anywhere pat (c # cs) = (match_here pat (c # cs) \<or> match_anywhere pat cs)"

definition str_contains :: "pylib \<Rightarrow> string \<Rightarrow> string \<Rightarrow> bool option" where
  "str_contains lib pat s =
     (if list_all (\<lambda>c. ordinary c \<or> c = CHR ''.'') pat then Some (match_anywhere pat s)
      else if list_all (\<lambda>c. ordinary c \<or> c = CHR ''.'' \<or> c = CHR ''('') pat then None
      else re_search lib pat s)"

text \<open>
  The mask of one column (an exception in any cell is the exception of the column), and
  \<open>.any(axis=1)\<close> over the masks of the columns. On a frame without rows \<open>apply\<close> does not
  run \<open>str.contains\<close> on any column, so no pattern is compiled there.
\<close>

fun contains_col :: "pylib \<Rightarrow> string \<Rightarrow> string list \<Rightarrow> py_error + bool list" where
  "contains_col lib pat [] = Inr []"
| "contains_col lib pat (s # ss) =
     (case str_contains lib pat s of
        None \<Rightarrow> Inl ReError
      | Some b \<Rightarrow> (case contains_col lib pat ss of Inl e \<Rightarrow> Inl e | Inr bs \<Rightarrow> Inr (b # bs)))"

fun contains_cols :: "pylib \<Rightarrow> string \<Rightarrow> frame \<Rightarrow> py_error + bool list list" where
  "contains_cols lib pat [] = Inr []"
| "contains_cols lib pat ((n, c) # cols) =
     (case contains_col lib pat (astype_str lib c) of
        Inl e \<Rightarrow> Inl e
      | Inr m \<Rightarrow> (case contains_cols lib pat cols of Inl e \<Rightarrow> Inl e | Inr ms \<Rightarrow> Inr (m # ms)))"

definition any_axis1 :: "nat \<Rightarrow> bool list list \<Rightarrow> bool list" where
  "any_axis1 n masks = map (\<lambda>row. True \<in> set row) (rows_of n masks)"

text \<open>Lines 304-309: the frame that is shown.\<close>

definition search_rows :: "pylib \<Rightarrow> frame \<Rightarrow> string \<Rightarrow> py_error + frame" where
  "search_rows lib df_filtered search =
     (if search \<noteq> [] then
        (case contains_cols lib search df_filtered of
           Inl e \<Rightarrow> Inl e
         | Inr masks \<Rightarrow> Inr (pick_rows (any_axis1 (nrows df_filtered) masks) df_filtered))
      else Inr df_filtered)"

text \<open>Lines 289-309 together: the filters, then the search.\<close>

definition filter_and_search ::
  "pylib \<Rightarrow> frame \<Rightarrow> (string \<times> string list) list \<Rightarrow> string \<Rightarrow> py_error + frame" where
  "filter_and_search lib df fs search =
     (case apply_filters lib df fs of
        Inl e \<Rightarrow> Inl e
      | Inr df_filtered \<Rightarrow> search_rows lib df_filtered search)"

text \<open>The claim's reading of the search: the query as a literal text, letters compared without case.\<close>

fun literal_here :: "string \<Rightarrow> string \<Rightarrow> bool" where
  "literal_here [] s = True"
| "literal_here (p # ps) [] = False"
| "literal_here (p # ps) (c # cs) = (lower p = lower c \<and> literal_here ps cs)"

fun literal_substring :: "string \<Rightarrow> string \<Rightarrow> bool" where
  "literal_substring q [] = literal_here q []"
| "literal_substring q (c # cs) = (literal_here q (c # cs) \<or> literal_substring q cs)"

section \<open>Automatic charts and summaries (host.py, lines 411-497)\<close>



text \<open>
  \<open>Series.mode()\<close>: the non-missing values with the highest number of rows, sorted
  ascending. The summary shows \<open>mode()[0]\<close>, or a dash when there is no mode.
\<close>

definition mode :: "string option list \<Rightarrow> string list" where
  "mode xs =
     (let vs = present xs
      in sort (remdups (filter (\<lambda>v. list_all (\<lambda>w. count_list vs w \<le> count_list vs v) vs) vs)))"

definition terbanyak :: "string option list \<Rightarrow> string" where
  "terbanyak xs = (case mode xs of [] \<Rightarrow> ''-'' | m # _ \<Rightarrow> m)"

text \<open>The claim's reading of the tie-break: the first value in row order that has the highest count.\<close>

definition first_most_frequent :: "string option list \<Rightarrow> string option" where
  "first_most_frequent xs =
     (let vs = present xs
      in find (\<lambda>v. list_all (\<lambda>w. count_list vs w \<le> count_list vs v) vs) vs)"


















section \<open>Properties of the aggregation\<close>

lemma sum_groups:
  fixes h :: "'v \<Rightarrow> 'a::comm_monoid_add"
  shows "finite A \<Longrightarrow> fst ` set kv \<subseteq> A \<Longrightarrow>
   (\<Sum>k\<in>A. sum_list (map h (map snd (filter (\<lambda>p. fst p = k) kv)))) = sum_list (map h (map snd kv))"
proof (induction kv)
  case Nil
  then show ?case by simp
next
  case (Cons p kv)
  then have k: "fst p \<in> A" and sub: "fst ` set kv \<subseteq> A" by auto
  have "(\<Sum>k\<in>A. sum_list (map h (map snd (filter (\<lambda>q. fst q = k) (p # kv)))))
      = (\<Sum>k\<in>A. (if fst p = k then h (snd p) else 0)
                 + sum_list (map h (map snd (filter (\<lambda>q. fst q = k) kv))))"
    by (rule sum.cong) auto
  also have "\<dots> = (\<Sum>k\<in>A. if fst p = k then h (snd p) else 0)
                  + (\<Sum>k\<in>A. sum_list (map h (map snd (filter (\<lambda>q. fst q = k) kv))))"
    by (simp add: sum.distrib)
  also have "\<dots> = h (snd p) + sum_list (map h (map snd kv))"
    using Cons.IH[OF Cons.prems(1) sub] k Cons.prems(1) by (simp add: sum.delta)
  finally show ?case by simp
qed

lemma groupby_keys: "map fst (groupby kc vs) = sort (remdups (map fst (keyed kc vs)))"
  by (simp add: groupby_def Let_def comp_def)

lemma groupby_total:
  fixes h :: "'v \<Rightarrow> 'a::comm_monoid_add"
  shows "sum_list (map (\<lambda>(k, g). sum_list (map h g)) (groupby kc vs))
           = sum_list (map h (map snd (keyed kc vs)))"
proof -
  let ?kv = "keyed kc vs"
  let ?ks = "sort (remdups (map fst ?kv))"
  have d: "distinct ?ks" by simp
  have "sum_list (map (\<lambda>(k, g). sum_list (map h g)) (groupby kc vs))
      = sum_list (map (\<lambda>k. sum_list (map h (map snd (filter (\<lambda>p. fst p = k) ?kv)))) ?ks)"
    by (simp add: groupby_def Let_def comp_def)
  also have "\<dots> = (\<Sum>k\<in>set ?ks. sum_list (map h (map snd (filter (\<lambda>p. fst p = k) ?kv))))"
    using d by (rule sum_list_distinct_conv_sum_set)
  also have "\<dots> = sum_list (map h (map snd ?kv))"
    by (rule sum_groups) auto
  finally show ?thesis .
qed

lemma keyed_single:
  "length ks = length vs \<Longrightarrow> map snd (keyed [ks] vs) = rows_with_key ks vs"
proof (induction ks arbitrary: vs)
  case Nil
  then show ?case by (simp add: keyed_def rows_with_key_def)
next
  case (Cons k ks)
  then obtain v vs' where vs: "vs = v # vs'" by (cases vs) auto
  with Cons.prems have l: "length ks = length vs'" by simp
  from Cons.IH[OF l] show ?case
    by (cases k) (simp_all add: keyed_def rows_with_key_def vs l)
qed

lemma keyed_single_keys:
  "length ks = length vs \<Longrightarrow> set (map fst (keyed [ks] vs)) = {[s] | s. Some s \<in> set ks}"
proof (induction ks arbitrary: vs)
  case Nil
  then show ?case by (simp add: keyed_def)
next
  case (Cons k ks)
  then obtain v vs' where vs: "vs = v # vs'" by (cases vs) auto
  with Cons.prems have l: "length ks = length vs'" by simp
  from Cons.IH[OF l] show ?case
    by (cases k) (auto simp add: keyed_def vs l)
qed

lemma wf_len: "wf_frame df \<Longrightarrow> map_of df c = Some col \<Longrightarrow> len col = nrows df"
  by (auto simp: wf_frame_def list_all_iff dest!: map_of_SomeD)

lemma categorical_lookup:
  assumes "wf_frame df" "g \<in> set (categorical_cols df)"
  shows "\<exists>ks. map_of df g = Some (ObjCol ks) \<and> length ks = nrows df"
proof -
  from assms(2) obtain c where in_df: "(g, c) \<in> set df" and dt: "dtype_of c \<in> {Object, Category}"
    by (auto simp: categorical_cols_def select_dtypes_def)
  from dt obtain ks where c: "c = ObjCol ks" by (cases c) auto
  from assms(1) in_df have m: "map_of df g = Some c"
    by (simp add: wf_frame_def)
  with wf_len[OF assms(1) m] c show ?thesis by simp
qed

lemma hasil_total_count:
  "hasil_total \<lparr>header = hs, body = map (\<lambda>(k, g). (k, I64 (int (length g)))) gs\<rparr>
     = sum_list (map (\<lambda>(k, g). sum_list (map (\<lambda>x. 1) g)) gs)"
  by (induction gs) (auto simp: hasil_total_def hasil_def denote_def present_def sum_list_triv)










lemma rows_with_key_length:
  "length ks = length vs \<Longrightarrow> length (rows_with_key ks vs) = length (filter (\<lambda>k. k \<noteq> None) ks)"
proof (induction ks arbitrary: vs)
  case Nil
  then show ?case by (simp add: rows_with_key_def)
next
  case (Cons k ks)
  then obtain v vs' where vs: "vs = v # vs'" by (cases vs) auto
  with Cons.prems have l: "length ks = length vs'" by simp
  from Cons.IH[OF l] show ?case by (simp add: rows_with_key_def vs)
qed

lemma groupby_rows_ascending:
  "sorted (map fst (map (\<lambda>(k, g). (k, f g)) (groupby kc vs))) \<and>
   distinct (map fst (map (\<lambda>(k, g). (k, f g)) (groupby kc vs)))"
proof -
  have "map fst (map (\<lambda>(k, g). (k, f g)) (groupby kc vs)) = map fst (groupby kc vs)"
    by (simp add: comp_def case_prod_unfold)
  then show ?thesis
    by (simp only: groupby_keys) simp
qed

text \<open>
  Claim C2, as the code has it. With a grouping column \<open>g\<close> offered by the multiselect
  and not itself called Hasil, the \<open>count\<close> aggregation (whatever the value column) returns
  one row for each distinct non-missing value of \<open>g\<close>, and the values of Hasil add up to
  the number of rows whose \<open>g\<close> is not missing.
\<close>

theorem count_rows_per_present_key:
  assumes "wf_frame df" "g \<in> set (categorical_cols df)" "g \<noteq> ''Hasil''"
  shows "\<exists>ks r. key_column df g = Inr ks \<and> aggregate fa df [g] v Count = Inr r \<and>
           distinct (map fst (body r)) \<and>
           set (map fst (body r)) = {[s] | s. Some s \<in> set ks} \<and>
           length (body r) = card {s. Some s \<in> set ks} \<and>
           hasil_total r = real (length (filter (\<lambda>k. k \<noteq> None) ks))"
proof -
  from categorical_lookup[OF assms(1,2)] obtain ks
    where ks: "map_of df g = Some (ObjCol ks)" and lk: "length ks = nrows df" by blast
  let ?u = "replicate (nrows df) ()"
  let ?r = "\<lparr>header = [g, ''Hasil''],
             body = map (\<lambda>(k, g). (k, I64 (int (length g)))) (groupby [ks] ?u)\<rparr>"
  have lu: "length ks = length ?u" using lk by simp
  have kc: "key_column df g = Inr ks" using ks by simp
  have a: "aggregate fa df [g] v Count = Inr ?r"
    using kc assms(3) by (simp add: aggregate_def)
  have keys: "map fst (body ?r) = sort (remdups (map fst (keyed [ks] ?u)))"
    by (simp add: groupby_keys[symmetric] comp_def case_prod_unfold)
  have d: "distinct (map fst (body ?r))" unfolding keys by simp
  have s: "set (map fst (body ?r)) = {[s] | s. Some s \<in> set ks}"
    unfolding keys using keyed_single_keys[OF lu] by simp
  have "length (body ?r) = card (set (map fst (body ?r)))"
    using d distinct_card[of "map fst (body ?r)"] by simp
  also have "\<dots> = card ((\<lambda>s. [s]) ` {s. Some s \<in> set ks})"
    unfolding s by (rule arg_cong[where f=card]) auto
  also have "\<dots> = card {s. Some s \<in> set ks}"
    by (rule card_image) (simp add: inj_on_def)
  finally have n: "length (body ?r) = card {s. Some s \<in> set ks}" .
  have "hasil_total ?r = sum_list (map (\<lambda>x. 1) (map snd (keyed [ks] ?u)))"
    by (simp only: hasil_total_count groupby_total)
  also have "\<dots> = real (length (rows_with_key ks ?u))"
    by (simp add: keyed_single[OF lu] sum_list_triv)
  also have "length (rows_with_key ks ?u) = length (filter (\<lambda>k. k \<noteq> None) ks)"
    using lu by (rule rows_with_key_length)
  finally have t: "hasil_total ?r = real (length (filter (\<lambda>k. k \<noteq> None) ks))" .
  from kc a d s n t show ?thesis by blast
qed

text \<open>
  The theorem at Region = [B, NaN, A, B]: the rows are (A, 1) and (B, 2), and three of the
  four rows have a Region.
\<close>

theorem count_rows_per_present_key_witness:
  "wf_frame [(''Region'', ObjCol [Some ''B'', None, Some ''A'', Some ''B'']), (''Sales'', IntCol [1, 2, 3, 4])] \<and>
   ''Region'' \<in> set (categorical_cols [(''Region'', ObjCol [Some ''B'', None, Some ''A'', Some ''B'']), (''Sales'', IntCol [1, 2, 3, 4])]) \<and>
   ''Region'' \<noteq> ''Hasil'' \<and>
   aggregate exact_agg [(''Region'', ObjCol [Some ''B'', None, Some ''A'', Some ''B'']), (''Sales'', IntCol [1, 2, 3, 4])] [''Region''] ''Sales'' Count
     = Inr \<lparr>header = [''Region'', ''Hasil''], body = [([''A''], I64 1), ([''B''], I64 2)]\<rparr> \<and>
   hasil_total \<lparr>header = [''Region'', ''Hasil''], body = [([''A''], I64 1), ([''B''], I64 2)]\<rparr>
     = real (length (filter (\<lambda>k. k \<noteq> None) [Some ''B'', None, Some ''A'', Some ''B'']))"
proof -
  let ?df = "[(''Region'', ObjCol [Some ''B'', None, Some ''A'', Some ''B'']), (''Sales'', IntCol [1, 2, 3, 4])]"
  have w: "wf_frame ?df" by (simp add: wf_frame_def)
  have g: "''Region'' \<in> set (categorical_cols ?df)"
    by (simp add: categorical_cols_def select_dtypes_def)
  have h: "''Region'' \<noteq> ''Hasil''" by simp
  have a: "aggregate exact_agg ?df [''Region''] ''Sales'' Count
     = Inr \<lparr>header = [''Region'', ''Hasil''], body = [([''A''], I64 1), ([''B''], I64 2)]\<rparr>"
    by (simp add: aggregate_def groupby_def keyed_def)
  from count_rows_per_present_key[OF w g h, where fa = exact_agg and v = "''Sales''"] a w g show ?thesis by auto
qed

text \<open>
  Claim C2 as stated fails three times. Without a value column (a frame with no numeric
  column) the button gives a warning and no result. At Region = [A, NaN] the only row is
  (A, 1), while the frame has two rows. And a grouping column called Hasil makes
  \<open>reset_index(name='Hasil')\<close> raise.
\<close>

theorem count_needs_value_and_key:
  "on_click exact_agg [(''Region'', ObjCol [Some ''A'', None])] [''Region''] None Count
       \<lparr>analysis_result = None, analysis_config = None\<rparr>
     = (\<lparr>analysis_result = None, analysis_config = None\<rparr>, Warning) \<and>
   aggregate exact_agg [(''Region'', ObjCol [Some ''A'', None]), (''Sales'', IntCol [10, 5])] [''Region''] ''Sales'' Count
     = Inr \<lparr>header = [''Region'', ''Hasil''], body = [([''A''], I64 1)]\<rparr> \<and>
   hasil_total \<lparr>header = [''Region'', ''Hasil''], body = [([''A''], I64 1)]\<rparr> = 1 \<and>
   nrows [(''Region'', ObjCol [Some ''A'', None]), (''Sales'', IntCol [10, 5])] = 2 \<and>
   aggregate exact_agg [(''Hasil'', ObjCol [Some ''A'']), (''Sales'', IntCol [10])] [''Hasil''] ''Sales'' Count
     = Inl ValueError"
  by (simp add: on_click_def aggregate_def groupby_def keyed_def present_def wrap64_def hasil_total_def hasil_def denote_def)

text \<open>
  Claim C3, as the code has it. Whenever the aggregation returns, the rows of the result
  are in strictly ascending order of their keys (each key once): \<open>groupby\<close> sorts.
\<close>

theorem result_rows_ascending:
  assumes "aggregate fa df group_by_cols value_col agg_type = Inr r"
  shows "sorted (map fst (body r)) \<and> distinct (map fst (body r))"
proof -
  from assms obtain kc where kc: "key_columns df group_by_cols = Inr kc"
    by (auto simp: aggregate_def split: if_splits sum.splits)
  show ?thesis
  proof (cases "agg_type = Count")
    case True
    with assms kc have
      "r = \<lparr>header = group_by_cols @ [''Hasil''],
            body = map (\<lambda>(k, g). (k, I64 (int (length g)))) (groupby kc (replicate (nrows df) ()))\<rparr>"
      by (auto simp: aggregate_def split: if_splits)
    then show ?thesis using groupby_rows_ascending by simp
  next
    case False
    with assms kc consider
      (int) vals where "r = \<lparr>header = group_by_cols @ [''Hasil''],
            body = map (\<lambda>(k, g). (k, agg_int fa agg_type g)) (groupby kc vals)\<rparr>"
      | (float) vals where "r = \<lparr>header = group_by_cols @ [''Hasil''],
            body = map (\<lambda>(k, g). (k, agg_float fa agg_type g)) (groupby kc vals)\<rparr>"
      by (auto simp: aggregate_def split: if_splits option.splits column_data.splits)
    then show ?thesis
    proof cases
      case int
      then show ?thesis using groupby_rows_ascending by simp
    next
      case float
      then show ?thesis using groupby_rows_ascending by simp
    qed
  qed
qed

text \<open>
  The theorem at the spec's scenario Region = [A, A, B], Sales = [10, 20, 30] with \<open>sum\<close>:
  the rows are (A, 30) and (B, 30).
\<close>

theorem result_rows_ascending_witness:
  "aggregate exact_agg [(''Region'', ObjCol [Some ''A'', Some ''A'', Some ''B'']), (''Sales'', IntCol [10, 20, 30])]
       [''Region''] ''Sales'' Sum
     = Inr \<lparr>header = [''Region'', ''Hasil''], body = [([''A''], I64 30), ([''B''], I64 30)]\<rparr> \<and>
   sorted (map fst (body \<lparr>header = [''Region'', ''Hasil''], body = [([''A''], I64 30), ([''B''], I64 30)]\<rparr>)) \<and>
   distinct (map fst (body \<lparr>header = [''Region'', ''Hasil''], body = [([''A''], I64 30), ([''B''], I64 30)]\<rparr>))"
proof -
  have a: "aggregate exact_agg [(''Region'', ObjCol [Some ''A'', Some ''A'', Some ''B'']), (''Sales'', IntCol [10, 20, 30])]
       [''Region''] ''Sales'' Sum
     = Inr \<lparr>header = [''Region'', ''Hasil''], body = [([''A''], I64 30), ([''B''], I64 30)]\<rparr>"
    by (simp add: aggregate_def groupby_def keyed_def present_def wrap64_def)
  from result_rows_ascending[OF a] a show ?thesis by blast
qed

text \<open>
  Claim C3 as stated fails at Region = [B, A], Sales = [1, 2]: B is seen first, and the
  result has the row of A first.
\<close>

theorem result_rows_not_first_seen:
  "aggregate exact_agg [(''Region'', ObjCol [Some ''B'', Some ''A'']), (''Sales'', IntCol [1, 2])]
       [''Region''] ''Sales'' Sum
     = Inr \<lparr>header = [''Region'', ''Hasil''], body = [([''A''], I64 2), ([''B''], I64 1)]\<rparr> \<and>
   first_seen [[''B''], [''A'']] = [[''B''], [''A'']] \<and>
   map fst [([''A''], I64 2), ([''B''], I64 1)] \<noteq> first_seen [[''B''], [''A'']]"
  by (simp add: aggregate_def groupby_def keyed_def present_def wrap64_def first_seen_def)

text \<open>
  Claim C5, as the code has it. The button answers with the warning and leaves the state
  as it is when no value column is selected, when the grouping is empty, and when the
  name of the value column is empty; this holds for \<open>count\<close> as for every reducer. With a
  grouping and a value column selected, a \<open>count\<close> is what the grouped sizes give, whatever
  the value column is: their error is reported, and their table is stored.
\<close>

theorem count_gate:
  "on_click fa df group_by_cols None Count st = (st, Warning) \<and>
   on_click fa df [] value_col Count st = (st, Warning) \<and>
   on_click fa df group_by_cols (Some []) Count st = (st, Warning) \<and>
   (group_by_cols \<noteq> [] \<and> v \<noteq> [] \<longrightarrow>
      on_click fa df group_by_cols (Some v) Count st =
        (case aggregate fa df group_by_cols w Count of
           Inl e \<Rightarrow> (st, Error e)
         | Inr r \<Rightarrow>
             (st\<lparr>analysis_result := Some r,
                 analysis_config := Some \<lparr>cfg_group_by = group_by_cols, cfg_value_col = v,
                                           cfg_agg_type = Count\<rparr>\<rparr>,
              Success)))"
proof -
  have same: "aggregate fa df group_by_cols v Count = aggregate fa df group_by_cols w Count"
    by (simp add: aggregate_def split: sum.splits)
  have 1: "on_click fa df group_by_cols None Count st = (st, Warning)"
    by (simp add: on_click_def)
  have 2: "on_click fa df [] value_col Count st = (st, Warning)"
    by (simp add: on_click_def split: option.splits)
  have 3: "on_click fa df group_by_cols (Some []) Count st = (st, Warning)"
    by (simp add: on_click_def)
  have 4: "group_by_cols \<noteq> [] \<and> v \<noteq> [] \<longrightarrow>
      on_click fa df group_by_cols (Some v) Count st =
        (case aggregate fa df group_by_cols w Count of
           Inl e \<Rightarrow> (st, Error e)
         | Inr r \<Rightarrow>
             (st\<lparr>analysis_result := Some r,
                 analysis_config := Some \<lparr>cfg_group_by = group_by_cols, cfg_value_col = v,
                                           cfg_agg_type = Count\<rparr>\<rparr>,
              Success))"
    unfolding same[symmetric] by (simp add: on_click_def)
  from 1 2 3 4 show ?thesis by (intro conjI)
qed

text \<open>
  The theorem on a frame with the numeric columns Sales and Qty: no value column and no
  grouping give the warning, and a \<open>count\<close> by Region stores the same table of sizes with
  Sales as with Qty selected.
\<close>

theorem count_gate_witness:
  "on_click exact_agg
      [(''Region'', ObjCol [Some ''B'', Some ''A'']), (''Sales'', IntCol [1, 2]), (''Qty'', IntCol [7, 8])]
      [''Region''] None Count \<lparr>analysis_result = None, analysis_config = None\<rparr>
     = (\<lparr>analysis_result = None, analysis_config = None\<rparr>, Warning) \<and>
   on_click exact_agg
      [(''Region'', ObjCol [Some ''B'', Some ''A'']), (''Sales'', IntCol [1, 2]), (''Qty'', IntCol [7, 8])]
      [] (Some ''Sales'') Count \<lparr>analysis_result = None, analysis_config = None\<rparr>
     = (\<lparr>analysis_result = None, analysis_config = None\<rparr>, Warning) \<and>
   [''Region''] \<noteq> [] \<and> ''Sales'' \<noteq> [] \<and>
   aggregate exact_agg
      [(''Region'', ObjCol [Some ''B'', Some ''A'']), (''Sales'', IntCol [1, 2]), (''Qty'', IntCol [7, 8])]
      [''Region''] ''Qty'' Count
     = Inr \<lparr>header = [''Region'', ''Hasil''], body = [([''A''], I64 1), ([''B''], I64 1)]\<rparr> \<and>
   on_click exact_agg
      [(''Region'', ObjCol [Some ''B'', Some ''A'']), (''Sales'', IntCol [1, 2]), (''Qty'', IntCol [7, 8])]
      [''Region''] (Some ''Sales'') Count \<lparr>analysis_result = None, analysis_config = None\<rparr>
     = (\<lparr>analysis_result =
           Some \<lparr>header = [''Region'', ''Hasil''], body = [([''A''], I64 1), ([''B''], I64 1)]\<rparr>,
         analysis_config =
           Some \<lparr>cfg_group_by = [''Region''], cfg_value_col = ''Sales'', cfg_agg_type = Count\<rparr>\<rparr>,
        Success)"
proof -
  let ?df = "[(''Region'', ObjCol [Some ''B'', Some ''A'']), (''Sales'', IntCol [1, 2]),
              (''Qty'', IntCol [7, 8])]"
  let ?st = "\<lparr>analysis_result = None, analysis_config = None\<rparr>"
  let ?r = "\<lparr>header = [''Region'', ''Hasil''], body = [([''A''], I64 1), ([''B''], I64 1)]\<rparr>"
  note gate = count_gate[of exact_agg ?df "[''Region'']" ?st "Some ''Sales''" "''Sales''" "''Qty''"]
  have h: "[''Region''] \<noteq> [] \<and> ''Sales'' \<noteq> []" by simp
  have a: "aggregate exact_agg ?df [''Region''] ''Qty'' Count = Inr ?r"
    by (simp add: aggregate_def groupby_def keyed_def)
  from gate have 1: "on_click exact_agg ?df [''Region''] None Count ?st = (?st, Warning)"
    by (rule conjunct1)
  from gate have 2: "on_click exact_agg ?df [] (Some ''Sales'') Count ?st = (?st, Warning)"
    by (elim conjE)
  from gate[THEN conjunct2, THEN conjunct2, THEN conjunct2, THEN mp, OF h]
  have 4: "on_click exact_agg ?df [''Region''] (Some ''Sales'') Count ?st
     = (\<lparr>analysis_result = Some ?r,
         analysis_config =
           Some \<lparr>cfg_group_by = [''Region''], cfg_value_col = ''Sales'', cfg_agg_type = Count\<rparr>\<rparr>,
        Success)"
    unfolding a by simp
  from h have h1: "[''Region''] \<noteq> []" and h2: "''Sales'' \<noteq> []" by simp_all
  from 1 2 h1 h2 a 4 show ?thesis by (intro conjI)
qed

text \<open>
  Claim C5 as stated fails on a frame with the one column Region = [A, A, B] (no numeric
  column, so \<open>value_col\<close> is \<open>None\<close>): a \<open>count\<close> with the grouping [Region] is answered with
  the warning, and no result is stored.
\<close>

theorem count_without_value_column_refused:
  "on_click exact_agg [(''Region'', ObjCol [Some ''A'', Some ''A'', Some ''B''])] [''Region''] None Count
       \<lparr>analysis_result = None, analysis_config = None\<rparr>
     = (\<lparr>analysis_result = None, analysis_config = None\<rparr>, Warning) \<and>
   numeric_cols [(''Region'', ObjCol [Some ''A'', Some ''A'', Some ''B''])] = []"
  by (simp add: on_click_def numeric_cols_def select_dtypes_def)

text \<open>
  Claim C8. A click that does not end in the success notice (the warning of the gate, or
  an exception inside the \<open>try\<close> block) returns the session state it was given; and a click
  that succeeds stores the new result and its configuration.
\<close>

theorem failed_aggregation_keeps_state:
  "(snd (on_click fa df group_by_cols value_col agg_type st) \<noteq> Success \<longrightarrow>
      fst (on_click fa df group_by_cols value_col agg_type st) = st) \<and>
   (snd (on_click fa df group_by_cols value_col agg_type st) = Success \<longrightarrow>
      (\<exists>v r. value_col = Some v \<and> aggregate fa df group_by_cols v agg_type = Inr r \<and>
         fst (on_click fa df group_by_cols value_col agg_type st)
           = st\<lparr>analysis_result := Some r,
                analysis_config := Some \<lparr>cfg_group_by = group_by_cols, cfg_value_col = v,
                                          cfg_agg_type = agg_type\<rparr>\<rparr>))"
  by (auto simp: on_click_def split: option.splits sum.splits)

text \<open>
  The theorem with a stored earlier result: a \<open>count\<close> grouped by a column called Hasil
  raises and keeps the state, an empty grouping gives the warning and keeps the state, and
  a \<open>sum\<close> replaces the stored result.
\<close>

theorem failed_aggregation_keeps_state_witness:
  "snd (on_click exact_agg [(''Hasil'', ObjCol [Some ''A'']), (''Sales'', IntCol [10])] [''Hasil''] (Some ''Sales'') Count
     \<lparr>analysis_result = Some \<lparr>header = [''Region'', ''Hasil''], body = [([''A''], I64 30)]\<rparr>,
       analysis_config = Some \<lparr>cfg_group_by = [''Region''], cfg_value_col = ''Sales'', cfg_agg_type = Sum\<rparr>\<rparr>)
     = Error ValueError \<and>
   fst (on_click exact_agg [(''Hasil'', ObjCol [Some ''A'']), (''Sales'', IntCol [10])] [''Hasil''] (Some ''Sales'') Count
     \<lparr>analysis_result = Some \<lparr>header = [''Region'', ''Hasil''], body = [([''A''], I64 30)]\<rparr>,
       analysis_config = Some \<lparr>cfg_group_by = [''Region''], cfg_value_col = ''Sales'', cfg_agg_type = Sum\<rparr>\<rparr>)
     = \<lparr>analysis_result = Some \<lparr>header = [''Region'', ''Hasil''], body = [([''A''], I64 30)]\<rparr>,
       analysis_config = Some \<lparr>cfg_group_by = [''Region''], cfg_value_col = ''Sales'', cfg_agg_type = Sum\<rparr>\<rparr> \<and>
   snd (on_click exact_agg [(''Hasil'', ObjCol [Some ''A'']), (''Sales'', IntCol [10])] [] (Some ''Sales'') Sum
     \<lparr>analysis_result = Some \<lparr>header = [''Region'', ''Hasil''], body = [([''A''], I64 30)]\<rparr>,
       analysis_config = Some \<lparr>cfg_group_by = [''Region''], cfg_value_col = ''Sales'', cfg_agg_type = Sum\<rparr>\<rparr>)
     = Warning \<and>
   fst (on_click exact_agg [(''Hasil'', ObjCol [Some ''A'']), (''Sales'', IntCol [10])] [] (Some ''Sales'') Sum
     \<lparr>analysis_result = Some \<lparr>header = [''Region'', ''Hasil''], body = [([''A''], I64 30)]\<rparr>,
       analysis_config = Some \<lparr>cfg_group_by = [''Region''], cfg_value_col = ''Sales'', cfg_agg_type = Sum\<rparr>\<rparr>)
     = \<lparr>analysis_result = Some \<lparr>header = [''Region'', ''Hasil''], body = [([''A''], I64 30)]\<rparr>,
       analysis_config = Some \<lparr>cfg_group_by = [''Region''], cfg_value_col = ''Sales'', cfg_agg_type = Sum\<rparr>\<rparr> \<and>
   on_click exact_agg [(''Hasil'', ObjCol [Some ''A'']), (''Sales'', IntCol [10])] [''Hasil''] (Some ''Sales'') Sum
     \<lparr>analysis_result = Some \<lparr>header = [''Region'', ''Hasil''], body = [([''A''], I64 30)]\<rparr>,
       analysis_config = Some \<lparr>cfg_group_by = [''Region''], cfg_value_col = ''Sales'', cfg_agg_type = Sum\<rparr>\<rparr>
     = (\<lparr>analysis_result = Some \<lparr>header = [''Hasil'', ''Hasil''], body = [([''A''], I64 10)]\<rparr>,
        analysis_config = Some \<lparr>cfg_group_by = [''Hasil''], cfg_value_col = ''Sales'', cfg_agg_type = Sum\<rparr>\<rparr>, Success)"
proof -
  let ?df = "[(''Hasil'', ObjCol [Some ''A'']), (''Sales'', IntCol [10])]"
  let ?st = "\<lparr>analysis_result = Some \<lparr>header = [''Region'', ''Hasil''], body = [([''A''], I64 30)]\<rparr>,
       analysis_config = Some \<lparr>cfg_group_by = [''Region''], cfg_value_col = ''Sales'', cfg_agg_type = Sum\<rparr>\<rparr>"
  have e: "snd (on_click exact_agg ?df [''Hasil''] (Some ''Sales'') Count ?st) = Error ValueError"
    by (simp add: on_click_def aggregate_def wrap64_def)
  then have e': "snd (on_click exact_agg ?df [''Hasil''] (Some ''Sales'') Count ?st) \<noteq> Success" by simp
  have w: "snd (on_click exact_agg ?df [] (Some ''Sales'') Sum ?st) = Warning"
    by (simp add: on_click_def)
  then have w': "snd (on_click exact_agg ?df [] (Some ''Sales'') Sum ?st) \<noteq> Success" by simp
  have s: "snd (on_click exact_agg ?df [''Hasil''] (Some ''Sales'') Sum ?st) = Success"
    by (simp add: on_click_def aggregate_def wrap64_def)
  have a: "aggregate exact_agg ?df [''Hasil''] ''Sales'' Sum
             = Inr \<lparr>header = [''Hasil'', ''Hasil''], body = [([''A''], I64 10)]\<rparr>"
    by (simp add: aggregate_def groupby_def keyed_def present_def wrap64_def)
  from failed_aggregation_keeps_state[of exact_agg ?df "[''Hasil'']" "Some ''Sales''" Count ?st] e'
  have 1: "fst (on_click exact_agg ?df [''Hasil''] (Some ''Sales'') Count ?st) = ?st" by blast
  from failed_aggregation_keeps_state[of exact_agg ?df "[]" "Some ''Sales''" Sum ?st] w'
  have 2: "fst (on_click exact_agg ?df [] (Some ''Sales'') Sum ?st) = ?st" by blast
  from failed_aggregation_keeps_state[of exact_agg ?df "[''Hasil'']" "Some ''Sales''" Sum ?st] s a
  have 3: "fst (on_click exact_agg ?df [''Hasil''] (Some ''Sales'') Sum ?st)
     = \<lparr>analysis_result = Some \<lparr>header = [''Hasil'', ''Hasil''], body = [([''A''], I64 10)]\<rparr>,
        analysis_config = Some \<lparr>cfg_group_by = [''Hasil''], cfg_value_col = ''Sales'', cfg_agg_type = Sum\<rparr>\<rparr>"
    by auto
  from 3 s have 4: "on_click exact_agg ?df [''Hasil''] (Some ''Sales'') Sum ?st
     = (\<lparr>analysis_result = Some \<lparr>header = [''Hasil'', ''Hasil''], body = [([''A''], I64 10)]\<rparr>,
        analysis_config = Some \<lparr>cfg_group_by = [''Hasil''], cfg_value_col = ''Sales'', cfg_agg_type = Sum\<rparr>\<rparr>, Success)"
    by (metis prod.collapse)
  from e 1 w 2 4 show ?thesis by (intro conjI)
qed

section \<open>Properties of the classification\<close>

text \<open>
  Claim C4, as the code has it. In a frame with distinct column names the numeric and the
  categorical columns are disjoint, each holds a name once at most, and both, with the
  date-like columns, are columns of the frame. A column is numeric exactly when its dtype
  is int64 or float64, and categorical exactly when its dtype is object; a column of
  booleans is in neither list.
\<close>

theorem classification_by_dtype:
  assumes "distinct (map fst df)"
  shows "set (numeric_cols df) \<inter> set (categorical_cols df) = {} \<and>
         distinct (numeric_cols df) \<and> distinct (categorical_cols df) \<and>
         set (numeric_cols df) \<subseteq> set (map fst df) \<and>
         set (categorical_cols df) \<subseteq> set (map fst df) \<and>
         set (date_cols to_datetime df) \<subseteq> set (map fst df) \<and>
         (\<forall>(n, c) \<in> set df.
            (n \<in> set (numeric_cols df) \<longleftrightarrow> dtype_of c = Int64 \<or> dtype_of c = Float64) \<and>
            (n \<in> set (categorical_cols df) \<longleftrightarrow> dtype_of c = Object) \<and>
            (dtype_of c = Bool \<longrightarrow>
               n \<notin> set (numeric_cols df) \<and> n \<notin> set (categorical_cols df)))"
proof -
  have key: "\<And>n c c'. (n, c) \<in> set df \<Longrightarrow> (n, c') \<in> set df \<Longrightarrow> c = c'"
  proof -
    fix n c c' assume a: "(n, c) \<in> set df" and b: "(n, c') \<in> set df"
    from map_of_is_SomeI[OF assms a] map_of_is_SomeI[OF assms b] show "c = c'" by simp
  qed
  have num: "\<And>n c. (n, c) \<in> set df \<Longrightarrow>
      n \<in> set (numeric_cols df) \<longleftrightarrow> dtype_of c = Int64 \<or> dtype_of c = Float64"
  proof
    fix n c assume nc: "(n, c) \<in> set df" and "n \<in> set (numeric_cols df)"
    then obtain c' where c': "(n, c') \<in> set df" "dtype_of c' = Int64 \<or> dtype_of c' = Float64"
      by (auto simp: numeric_cols_def select_dtypes_def)
    from key[OF nc c'(1)] c'(2) show "dtype_of c = Int64 \<or> dtype_of c = Float64" by simp
  next
    fix n c assume nc: "(n, c) \<in> set df" and "dtype_of c = Int64 \<or> dtype_of c = Float64"
    then show "n \<in> set (numeric_cols df)"
      by (force simp: numeric_cols_def select_dtypes_def)
  qed
  have cat: "\<And>n c. (n, c) \<in> set df \<Longrightarrow> n \<in> set (categorical_cols df) \<longleftrightarrow> dtype_of c = Object"
  proof
    fix n c assume nc: "(n, c) \<in> set df" and "n \<in> set (categorical_cols df)"
    then obtain c' where c': "(n, c') \<in> set df" "dtype_of c' = Object \<or> dtype_of c' = Category"
      by (auto simp: categorical_cols_def select_dtypes_def)
    from c'(2) have "dtype_of c' = Object" by (cases c') simp_all
    with key[OF nc c'(1)] show "dtype_of c = Object" by simp
  next
    fix n c assume nc: "(n, c) \<in> set df" and "dtype_of c = Object"
    then show "n \<in> set (categorical_cols df)"
      by (force simp: categorical_cols_def select_dtypes_def)
  qed
  have disj: "set (numeric_cols df) \<inter> set (categorical_cols df) = {}"
  proof (rule ccontr)
    assume "set (numeric_cols df) \<inter> set (categorical_cols df) \<noteq> {}"
    then obtain n where n1: "n \<in> set (numeric_cols df)" and n2: "n \<in> set (categorical_cols df)"
      by blast
    from n1 obtain c where nc: "(n, c) \<in> set df"
      by (auto simp: numeric_cols_def select_dtypes_def)
    from num[OF nc] cat[OF nc] n1 n2 show False by auto
  qed
  have d1: "distinct (numeric_cols df)" and d2: "distinct (categorical_cols df)"
    using assms
    by (simp_all add: numeric_cols_def categorical_cols_def select_dtypes_def distinct_map_filter)
  have sub: "set (numeric_cols df) \<subseteq> set (map fst df)"
       "set (categorical_cols df) \<subseteq> set (map fst df)"
       "set (date_cols to_datetime df) \<subseteq> set (map fst df)"
    by (auto simp: numeric_cols_def categorical_cols_def date_cols_def select_dtypes_def)
  have cover: "\<forall>(n, c) \<in> set df.
            (n \<in> set (numeric_cols df) \<longleftrightarrow> dtype_of c = Int64 \<or> dtype_of c = Float64) \<and>
            (n \<in> set (categorical_cols df) \<longleftrightarrow> dtype_of c = Object) \<and>
            (dtype_of c = Bool \<longrightarrow>
               n \<notin> set (numeric_cols df) \<and> n \<notin> set (categorical_cols df))"
  proof (clarify, intro conjI impI)
    fix n c assume nc: "(n, c) \<in> set df"
    show "n \<in> set (numeric_cols df) \<longleftrightarrow> dtype_of c = Int64 \<or> dtype_of c = Float64"
      by (rule num[OF nc])
    show "n \<in> set (categorical_cols df) \<longleftrightarrow> dtype_of c = Object"
      by (rule cat[OF nc])
    assume b: "dtype_of c = Bool"
    show "n \<notin> set (numeric_cols df)" using num[OF nc] b by simp
    show "n \<notin> set (categorical_cols df)" using cat[OF nc] b by simp
  qed
  from disj d1 d2 sub cover show ?thesis by (intro conjI)
qed

text \<open>
  The theorem on a frame with a text, an integer and a boolean column; the date parser
  accepts the text column here.
\<close>

theorem classification_by_dtype_witness:
  "distinct (map fst [(''Kota'', ObjCol [Some ''Bali'']), (''Harga'', IntCol [10]), (''Aktif'', BoolCol [True])]) \<and>
   numeric_cols [(''Kota'', ObjCol [Some ''Bali'']), (''Harga'', IntCol [10]), (''Aktif'', BoolCol [True])]
     = [''Harga''] \<and>
   categorical_cols [(''Kota'', ObjCol [Some ''Bali'']), (''Harga'', IntCol [10]), (''Aktif'', BoolCol [True])]
     = [''Kota''] \<and>
   date_cols (\<lambda>c. dtype_of c = Object)
       [(''Kota'', ObjCol [Some ''Bali'']), (''Harga'', IntCol [10]), (''Aktif'', BoolCol [True])]
     = [''Kota''] \<and>
   set (numeric_cols [(''Kota'', ObjCol [Some ''Bali'']), (''Harga'', IntCol [10]), (''Aktif'', BoolCol [True])])
     \<inter> set (categorical_cols
              [(''Kota'', ObjCol [Some ''Bali'']), (''Harga'', IntCol [10]), (''Aktif'', BoolCol [True])])
     = {}"
proof -
  let ?df = "[(''Kota'', ObjCol [Some ''Bali'']), (''Harga'', IntCol [10]), (''Aktif'', BoolCol [True])]"
  have d: "distinct (map fst ?df)" by simp
  have n: "numeric_cols ?df = [''Harga'']" by (simp add: numeric_cols_def select_dtypes_def)
  have c: "categorical_cols ?df = [''Kota'']" by (simp add: categorical_cols_def select_dtypes_def)
  have t: "date_cols (\<lambda>c. dtype_of c = Object) ?df = [''Kota'']" by (simp add: date_cols_def)
  note disjoint = classification_by_dtype[OF d, of "\<lambda>c. dtype_of c = Object", THEN conjunct1]
  from d n c t disjoint show ?thesis by (intro conjI)
qed

text \<open>
  Claim C4 as stated fails on a frame whose column Aktif holds booleans (a CSV column of
  True and False): the column is in neither list.
\<close>

theorem classification_misses_bool:
  "numeric_cols [(''Aktif'', BoolCol [True, False])] = [] \<and>
   categorical_cols [(''Aktif'', BoolCol [True, False])] = [] \<and>
   map fst [(''Aktif'', BoolCol [True, False])] = [''Aktif'']"
  by (simp add: numeric_cols_def categorical_cols_def select_dtypes_def)

section \<open>Properties of the search\<close>

text \<open>
  Where the code and the reading as a literal text agree: a query of ordinary characters
  is found exactly where it occurs as a text, letters compared without case. And the
  allow-list filters, whose entries name columns of the frame, always return a frame with
  the same columns.
\<close>

lemma match_here_literal:
  "list_all ordinary q \<Longrightarrow> match_here q s = literal_here q s"
proof (induction q s rule: match_here.induct)
  case (3 p ps c cs)
  then have "p \<noteq> CHR ''.''" by (auto simp: ordinary_def metachars_def)
  with 3 show ?case by simp
qed simp_all

lemma plain_query_is_literal:
  assumes "list_all ordinary q"
  shows "str_contains lib q s = Some (literal_substring q s)"
proof -
  have "match_anywhere q s = literal_substring q s"
    by (induction s) (simp_all add: match_here_literal[OF assms])
  moreover have "list_all (\<lambda>c. ordinary c \<or> c = CHR ''.'') q"
    using assms by (simp add: list_all_iff)
  ultimately show ?thesis by (simp add: str_contains_def)
qed

lemma pick_rows_names: "map fst (pick_rows m df) = map fst df"
  by (simp add: pick_rows_def comp_def case_prod_unfold)

lemma apply_filters_total:
  "set (map fst fs) \<subseteq> set (map fst df) \<Longrightarrow>
     \<exists>df'. apply_filters lib df fs = Inr df' \<and> map fst df' = map fst df"
proof (induction fs arbitrary: df)
  case Nil
  then show ?case by simp
next
  case (Cons f fs)
  obtain col fv where f: "f = (col, fv)" by (cases f)
  from Cons.prems f have col: "col \<in> set (map fst df)" and rest: "set (map fst fs) \<subseteq> set (map fst df)"
    by simp_all
  show ?case
  proof (cases "''Semua'' \<notin> set fv \<and> fv \<noteq> []")
    case False
    with Cons.IH[OF rest] f show ?thesis by auto
  next
    case True
    from col obtain c where c: "map_of df col = Some c"
      by (metis map_of_eq_None_iff not_Some_eq set_map)
    let ?df = "pick_rows (map (\<lambda>s. s \<in> set fv) (astype_str lib c)) df"
    have "set (map fst fs) \<subseteq> set (map fst ?df)" using rest by (simp only: pick_rows_names)
    from Cons.IH[OF this] obtain df' where "apply_filters lib ?df fs = Inr df'" "map fst df' = map fst ?df"
      by blast
    then show ?thesis using True f c by (simp add: pick_rows_names)
  qed
qed

text \<open>
  Claim C6, at inputs where the code departs from it. The query a.c keeps the row abc,
  which does not contain the text a.c: the query is read as a pattern. And the query nan
  keeps a row whose only value is missing: the missing value has become the text nan
  before \<open>str.contains\<close> sees it, so \<open>na=False\<close> has nothing left to exclude.
\<close>

theorem search_reads_query_as_pattern:
  "search_rows lib [(''Kode'', ObjCol [Some ''abc'', Some ''xyz''])] ''a.c''
     = Inr [(''Kode'', ObjCol [Some ''abc''])] \<and>
   \<not> literal_substring ''a.c'' ''abc'' \<and>
   search_rows lib [(''Kota'', ObjCol [None, Some ''Bali''])] ''nan''
     = Inr [(''Kota'', ObjCol [None])]"
  by (simp add: search_rows_def str_contains_def ordinary_def metachars_def any_axis1_def
        pick_rows_def pick_def lower_def)

text \<open>
  Claim C7, at an input where the code departs from it. With every filter left at Semua,
  the query of one opening parenthesis on a frame with one row ends in \<open>re.error\<close>: no
  frame is returned.
\<close>

theorem search_raises_on_open_parenthesis:
  "filter_and_search lib [(''Nama'', ObjCol [Some ''Budi''])]
       (filters (\<lambda>col. [''Semua'']) [(''Nama'', ObjCol [Some ''Budi''])]) ''(''
     = Inl ReError"
  by (simp add: filter_and_search_def filters_def categorical_cols_def select_dtypes_def
        search_rows_def str_contains_def ordinary_def metachars_def)

section \<open>Properties of the automatic mode\<close>

lemma sort_Cons_least:
  fixes ys :: "'a::linorder list"
  assumes "sort ys = m # rest"
  shows "m \<in> set ys \<and> (\<forall>y \<in> set ys. m \<le> y)"
proof -
  have "sorted (sort ys)" by simp
  then have s: "sorted (m # rest)" using assms by simp
  have "set (sort ys) = set ys" by simp
  then have e: "set ys = insert m (set rest)" using assms by simp
  from s have "\<forall>y \<in> set rest. m \<le> y" by simp
  with e show ?thesis by simp
qed

lemma most_frequent_exists:
  assumes "vs \<noteq> []"
  shows "\<exists>v \<in> set vs. \<forall>w \<in> set vs. count_list vs w \<le> count_list vs v"
proof -
  let ?C = "count_list vs ` set vs"
  have f: "finite ?C" by simp
  have ne: "?C \<noteq> {}" using assms by simp
  from Max_in[OF f ne] obtain v where v: "v \<in> set vs" and m: "count_list vs v = Lattices_Big.Max ?C"
    by (auto simp: image_iff)
  have "\<forall>w \<in> set vs. count_list vs w \<le> count_list vs v"
    unfolding m using f by (intro ballI Max_ge) simp_all
  with v show ?thesis by (rule bexI[rotated])
qed

text \<open>
  Claim C9, as the code has it. When the column has no value the summary shows a dash.
  Otherwise it shows a value of the column that no value outnumbers, and among the values
  that no value outnumbers it is the least in the order of strings.
\<close>

theorem most_frequent_smallest:
  "(present xs = [] \<longrightarrow> terbanyak xs = ''-'') \<and>
   (present xs \<noteq> [] \<longrightarrow>
      terbanyak xs \<in> set (present xs) \<and>
      (\<forall>w \<in> set (present xs). count_list (present xs) w \<le> count_list (present xs) (terbanyak xs)) \<and>
      (\<forall>v \<in> set (present xs).
          (\<forall>w \<in> set (present xs). count_list (present xs) w \<le> count_list (present xs) v)
            \<longrightarrow> terbanyak xs \<le> v))"
proof (cases "present xs = []")
  case True
  then show ?thesis by (simp add: terbanyak_def mode_def)
next
  case False
  define vs where "vs = present xs"
  define top where "top = filter (\<lambda>v. list_all (\<lambda>w. count_list vs w \<le> count_list vs v) vs) vs"
  have ne: "vs \<noteq> []" using False by (simp add: vs_def)
  have in_top: "\<And>v. v \<in> set top \<longleftrightarrow> v \<in> set vs \<and> (\<forall>w \<in> set vs. count_list vs w \<le> count_list vs v)"
    by (simp add: top_def list_all_iff)
  from most_frequent_exists[OF ne] obtain v0 where "v0 \<in> set top"
    unfolding in_top by blast
  then have "set (sort (remdups top)) \<noteq> {}" by auto
  then obtain m rest where mr: "sort (remdups top) = m # rest"
    by (cases "sort (remdups top)") simp_all
  have md: "mode xs = sort (remdups top)"
    by (simp add: mode_def top_def vs_def Let_def)
  have t: "terbanyak xs = m" by (simp add: terbanyak_def md mr)
  from sort_Cons_least[OF mr] have m_in: "m \<in> set top" and least: "\<forall>y \<in> set top. m \<le> y"
    by simp_all
  from m_in have 1: "m \<in> set vs" and 2: "\<forall>w \<in> set vs. count_list vs w \<le> count_list vs m"
    unfolding in_top by simp_all
  have 3: "\<forall>v \<in> set vs. (\<forall>w \<in> set vs. count_list vs w \<le> count_list vs v) \<longrightarrow> m \<le> v"
  proof (intro ballI impI)
    fix v assume "v \<in> set vs" and "\<forall>w \<in> set vs. count_list vs w \<le> count_list vs v"
    then have "v \<in> set top" by (simp add: in_top)
    with least show "m \<le> v" by (rule bspec)
  qed
  from 1 2 3 have "m \<in> set vs \<and> (\<forall>w \<in> set vs. count_list vs w \<le> count_list vs m) \<and>
      (\<forall>v \<in> set vs. (\<forall>w \<in> set vs. count_list vs w \<le> count_list vs v) \<longrightarrow> m \<le> v)"
    by (intro conjI)
  then show ?thesis using False unfolding t vs_def by simp
qed

text \<open>
  The theorem on [B, NaN, A, C, A, B]: A and B have two rows each, and the summary shows A.
\<close>

theorem most_frequent_smallest_witness:
  "present [Some ''B'', None, Some ''A'', Some ''C'', Some ''A'', Some ''B''] \<noteq> [] \<and>
   terbanyak [Some ''B'', None, Some ''A'', Some ''C'', Some ''A'', Some ''B''] = ''A'' \<and>
   count_list (present [Some ''B'', None, Some ''A'', Some ''C'', Some ''A'', Some ''B'']) ''A'' = 2 \<and>
   count_list (present [Some ''B'', None, Some ''A'', Some ''C'', Some ''A'', Some ''B'']) ''B'' = 2 \<and>
   count_list (present [Some ''B'', None, Some ''A'', Some ''C'', Some ''A'', Some ''B'']) ''C'' = 1 \<and>
   terbanyak [Some ''B'', None, Some ''A'', Some ''C'', Some ''A'', Some ''B''] \<le> ''B''"
proof -
  let ?xs = "[Some ''B'', None, Some ''A'', Some ''C'', Some ''A'', Some ''B'']"
  have p: "present ?xs = [''B'', ''A'', ''C'', ''A'', ''B'']" by (simp add: present_def)
  have ne: "present ?xs \<noteq> []" by (simp add: p)
  have b: "''B'' \<in> set (present ?xs)" by (simp add: p)
  have ca: "count_list (present ?xs) ''A'' = 2" by (simp add: p)
  have cb: "count_list (present ?xs) ''B'' = 2" by (simp add: p)
  have cc: "count_list (present ?xs) ''C'' = 1" by (simp add: p)
  have top: "\<forall>w \<in> set (present ?xs). count_list (present ?xs) w \<le> count_list (present ?xs) ''B''"
    by (simp add: p)
  have t: "terbanyak ?xs = ''A''" by (simp add: terbanyak_def mode_def p Let_def)
  note least = most_frequent_smallest[of ?xs, THEN conjunct2, THEN mp, OF ne,
      THEN conjunct2, THEN conjunct2]
  from bspec[OF least b] top have l: "terbanyak ?xs \<le> ''B''" by (rule mp)
  from ne t ca cb cc l show ?thesis by (intro conjI)
qed

text \<open>
  Claim C9 as stated fails on [B, A]: both values have one row, B comes first, and the
  summary shows A.
\<close>

theorem most_frequent_not_first_seen:
  "terbanyak [Some ''B'', Some ''A''] = ''A'' \<and> first_most_frequent [Some ''B'', Some ''A''] = Some ''B''"
  by (simp add: terbanyak_def mode_def present_def first_most_frequent_def Let_def)





































end
